theory Spec2Isabelle
  imports Complex_Main "HOL-Library.Sublist"
begin

section \<open>Python values reaching the classifier\<close>

text \<open>
  \<open>analyze_suspicious_windows_events\<close> (src/analyze.py, lines 32-146) walks the rows of a
  data frame built from decoded JSON objects. A cell therefore holds \<open>None\<close>, a bool, an int,
  a float (pandas writes \<open>NaN\<close> into the cell of a key that a record lacks), a str, a list or
  a dict; the \<open>_time\<close> column holds a timestamp after \<open>load_and_prepare_data\<close>.

  Strings are lists of 8-bit characters read as the code points 0 to 255; code points above
  255 are outside the model. Finite floats are modelled by their exact rational value.
\<close>

datatype pyfloat = Finite rat | PosInf | NegInf | NaN

datatype pyval =
    PNone
  | PBool bool
  | PInt int
  | PFloat pyfloat
  | PStr string
  | PList "pyval list"
  | PDict "(string \<times> pyval) list"
  | PTimestamp int

text \<open>The exceptions that the builtins used by the classifier can raise.\<close>

datatype exn = TypeError | ValueError | OverflowError | AttributeError

text \<open>A row is a pandas Series: a mapping from column label to cell.\<close>

type_synonym row = "string \<rightharpoonup> pyval"

definition row_get :: "row \<Rightarrow> string \<Rightarrow> pyval \<Rightarrow> pyval" where
  \<comment> \<open>\<open>row.get(key, default)\<close>; the default is \<open>None\<close> when not given\<close>
  "row_get r k d = (case r k of Some v \<Rightarrow> v | None \<Rightarrow> d)"

subsection \<open>Truth value, \<open>isinstance(_, str)\<close>, comparison with a str\<close>

fun py_truthy :: "pyval \<Rightarrow> bool" where
  "py_truthy PNone = False"
| "py_truthy (PBool b) = b"
| "py_truthy (PInt i) = (i \<noteq> 0)"
| "py_truthy (PFloat f) = (f \<noteq> Finite 0)"
| "py_truthy (PStr s) = (s \<noteq> [])"
| "py_truthy (PList xs) = (xs \<noteq> [])"
| "py_truthy (PDict kvs) = (kvs \<noteq> [])"
| "py_truthy (PTimestamp t) = True"

fun is_str :: "pyval \<Rightarrow> bool" where
  "is_str (PStr s) = True"
| "is_str v = False"

fun py_eq_str :: "pyval \<Rightarrow> string \<Rightarrow> bool" where
  \<comment> \<open>\<open>v == s\<close> for a str \<open>s\<close>: only a str with the same characters is equal to it\<close>
  "py_eq_str (PStr t) s = (t = s)"
| "py_eq_str v s = False"

definition py_in_strs :: "pyval \<Rightarrow> string list \<Rightarrow> bool" where
  \<comment> \<open>\<open>v in [s1, ..., sn]\<close>\<close>
  "py_in_strs v xs = list_ex (py_eq_str v) xs"

subsection \<open>\<open>int(_)\<close>\<close>

text \<open>
  On a str, \<open>int\<close> drops the surrounding whitespace and reads an optional sign and decimal
  digits, where single underscores may separate digits. The whitespace it drops is tab to
  carriage return (9 to 13), the blank (32), and of the code points from 128 to 255 the
  next-line control (133) and the no-break space (160); the separators 28 to 31 are not
  dropped and make the text invalid. A text of more than 4300 digits, leading zeros
  counted, sign and underscores not, is refused with \<open>ValueError\<close> (the interpreter's default
  bound on the conversion).
\<close>

definition is_space :: "char \<Rightarrow> bool" where
  \<comment> \<open>the code points below 256 that \<open>int\<close> drops at both ends of the text\<close>
  "is_space c = (of_char c \<in> set [9, 10, 11, 12, 13, 32, 133, 160 :: nat])"

definition is_digit :: "char \<Rightarrow> bool" where
  "is_digit c = (48 \<le> (of_char c :: nat) \<and> (of_char c :: nat) \<le> 57)"

definition digit_val :: "char \<Rightarrow> nat" where
  "digit_val c = of_char c - 48"

definition strip :: "string \<Rightarrow> string" where
  "strip s = rev (dropWhile is_space (rev (dropWhile is_space s)))"

fun parse_digits :: "nat \<Rightarrow> string \<Rightarrow> nat option" where
  \<comment> \<open>the text after a digit: digits, each optionally preceded by one underscore\<close>
  "parse_digits acc [] = Some acc"
| "parse_digits acc [c] = (if is_digit c then Some (acc * 10 + digit_val c) else None)"
| "parse_digits acc (c # d # cs) =
     (if is_digit c then parse_digits (acc * 10 + digit_val c) (d # cs)
      else if c = CHR ''_'' \<and> is_digit d then parse_digits (acc * 10 + digit_val d) cs
      else None)"

fun parse_nat :: "string \<Rightarrow> nat option" where
  "parse_nat [] = None"
| "parse_nat (c # cs) = (if is_digit c then parse_digits (digit_val c) cs else None)"

fun parse_int :: "string \<Rightarrow> int option" where
  \<comment> \<open>an optional sign, then the digits\<close>
  "parse_int [] = None"
| "parse_int (c # cs) =
     (if c = CHR ''-'' then map_option (\<lambda>n. - int n) (parse_nat cs)
      else if c = CHR ''+'' then map_option int (parse_nat cs)
      else map_option int (parse_nat (c # cs)))"

definition trunc :: "rat \<Rightarrow> int" where
  \<comment> \<open>rounding towards zero\<close>
  "trunc q = (if 0 \<le> q then \<lfloor>q\<rfloor> else \<lceil>q\<rceil>)"

definition max_str_digits :: nat where
  "max_str_digits = 4300"

definition int_of_str :: "string \<Rightarrow> exn + int" where
  "int_of_str s =
     (let t = strip s
      in case parse_int t of
           None \<Rightarrow> Inl ValueError
         | Some i \<Rightarrow> if length (filter is_digit t) > max_str_digits then Inl ValueError else Inr i)"

fun py_int :: "pyval \<Rightarrow> exn + int" where
  "py_int PNone = Inl TypeError"
| "py_int (PBool b) = Inr (if b then 1 else 0)"
| "py_int (PInt i) = Inr i"
| "py_int (PFloat (Finite q)) = Inr (trunc q)"
| "py_int (PFloat NaN) = Inl ValueError"
| "py_int (PFloat PosInf) = Inl OverflowError"
| "py_int (PFloat NegInf) = Inl OverflowError"
| "py_int (PStr s) = int_of_str s"
| "py_int (PList xs) = Inl TypeError"
| "py_int (PDict kvs) = Inl TypeError"
| "py_int (PTimestamp t) = Inl TypeError"

subsection \<open>\<open>str.lower\<close>, \<open>in\<close> on strings, \<open>str.join\<close>, formatting an int\<close>

definition lower_char :: "char \<Rightarrow> char" where
  \<comment> \<open>A-Z, and the capital letters of the range 192 to 222 (215 is the multiplication sign)\<close>
  "lower_char c =
     (let n = (of_char c :: nat)
      in if (65 \<le> n \<and> n \<le> 90) \<or> (192 \<le> n \<and> n \<le> 222 \<and> n \<noteq> 215) then char_of (n + 32) else c)"

fun py_lower :: "pyval \<Rightarrow> exn + string" where
  \<comment> \<open>\<open>v.lower()\<close>: only a str has the method\<close>
  "py_lower (PStr s) = Inr (map lower_char s)"
| "py_lower v = Inl AttributeError"

fun str_contains :: "string \<Rightarrow> string \<Rightarrow> bool" where
  \<comment> \<open>\<open>p in s\<close>: \<open>p\<close> occurs in \<open>s\<close> as a contiguous run\<close>
  "str_contains p [] = (p = [])"
| "str_contains p (c # cs) = (prefix p (c # cs) \<or> str_contains p cs)"

fun py_join :: "string \<Rightarrow> string list \<Rightarrow> string" where
  \<comment> \<open>\<open>sep.join(xs)\<close>\<close>
  "py_join sep [] = []"
| "py_join sep [x] = x"
| "py_join sep (x # y # ys) = x @ sep @ py_join sep (y # ys)"

fun str_nat :: "nat \<Rightarrow> string" where
  "str_nat n = (if n < 10 then [char_of (48 + n)] else str_nat (n div 10) @ [char_of (48 + n mod 10)])"

definition str_int :: "int \<Rightarrow> string" where
  \<comment> \<open>an int inside an f-string: its decimal digits\<close>
  "str_int i = (if i < 0 then CHR ''-'' # str_nat (nat (- i)) else str_nat (nat i))"

declare str_nat.simps [simp del]

fun py_format :: "pyval \<Rightarrow> string" where
  \<comment> \<open>\<open>{v}\<close> inside an f-string. The classifier formats a cell only where it is known to be
      a str; the text of a float, list, dict or timestamp is not modelled.\<close>
  "py_format (PStr s) = s"
| "py_format PNone = ''None''"
| "py_format (PBool b) = (if b then ''True'' else ''False'')"
| "py_format (PInt i) = str_int i"

section \<open>The event catalog\<close>

definition event_descriptions :: "int \<rightharpoonup> string" where
  \<comment> \<open>lines 39-85\<close>
  "event_descriptions = map_of
     [(4624, ''Successful Logon''),
      (4625, ''Failed Logon''),
      (4648, ''Logon with Explicit Credentials''),
      (4672, ''Special Privileges Assigned''),
      (4688, ''Process Creation''),
      (4689, ''Process Exit''),
      (4703, ''User Right Adjusted''),
      (4732, ''Member Added to Security Group''),
      (4733, ''Member Removed from Security Group''),
      (4656, ''Object Handle Requested''),
      (4663, ''Object Access Attempt''),
      (4608, ''Windows Startup''),
      (4609, ''Windows Shutdown''),
      (4616, ''System Time Change''),
      (4740, ''Account Locked Out''),
      (4768, ''Kerberos Ticket Requested''),
      (4769, ''Kerberos Ticket Granted''),
      (4776, ''Credential Validation''),
      (5140, ''Network Share Object Accessed''),
      (5156, ''Connection Allowed''),
      (5157, ''Connection Denied''),
      (7036, ''Service Started/Stopped''),
      (1102, ''Security Log Cleared''),
      (4720, ''User Account Created''),
      (4726, ''User Account Deleted''),
      (4728, ''Member Added to Global Group''),
      (4735, ''Security Group Changed''),
      (4798, ''User Group Membership Enumerated'')]"

definition reason_name :: "int \<Rightarrow> string" where
  \<comment> \<open>\<open>event_descriptions.get(event_id, f'Unknown ({event_id})')\<close>, lines 105, 110, 115\<close>
  "reason_name eid =
     (case event_descriptions eid of Some n \<Rightarrow> n | None \<Rightarrow> ''Unknown ('' @ str_int eid @ '')'')"

definition describe :: "int \<Rightarrow> string" where
  \<comment> \<open>\<open>event_descriptions.get(event_id, f'Event {event_id}')\<close>, line 138\<close>
  "describe eid =
     (case event_descriptions eid of Some n \<Rightarrow> n | None \<Rightarrow> ''Event '' @ str_int eid)"

definition high_risk_ids :: "int list" where
  \<comment> \<open>line 103\<close>
  "high_risk_ids = [4625, 4648, 4720, 4726, 1102, 4740, 4672]"

definition medium_risk_ids :: "int list" where
  \<comment> \<open>line 108\<close>
  "medium_risk_ids = [4688, 4703, 4656, 4768, 4769, 4732, 4735]"

definition low_risk_ids :: "int list" where
  \<comment> \<open>line 113\<close>
  "low_risk_ids = [4624, 4689, 5140, 5156, 7036]"

definition suspicious_processes :: "string list" where
  \<comment> \<open>line 122\<close>
  "suspicious_processes = [''powershell'', ''cmd'', ''wscript'', ''cscript'', ''mshta'', ''rundll32'']"

section \<open>The classifier\<close>

text \<open>
  The body of the loop keeps two variables, \<open>suspicious_score\<close> and \<open>reasons\<close>; each block
  of the body takes the pair and returns it updated.
\<close>

type_synonym score_state = "int \<times> string list"

definition extract_event_id :: "row \<Rightarrow> int option" where
  \<comment> \<open>lines 89-96: \<open>None\<close> is the \<open>continue\<close>; the bare \<open>except\<close> catches whatever \<open>int\<close> raises\<close>
  "extract_event_id r =
     (let v = row_get r ''EventCode'' PNone
      in if \<not> py_truthy v then None
         else (case py_int v of Inl e \<Rightarrow> None | Inr i \<Rightarrow> Some i))"

definition tier_check :: "int \<Rightarrow> score_state \<Rightarrow> score_state" where
  \<comment> \<open>lines 103-115\<close>
  "tier_check eid st =
     (case st of (score, rs) \<Rightarrow>
        if eid \<in> set high_risk_ids
          then (score + 3, rs @ [''High-risk event: '' @ reason_name eid])
        else if eid \<in> set medium_risk_ids
          then (score + 2, rs @ [''Medium-risk event: '' @ reason_name eid])
        else if eid \<in> set low_risk_ids
          then (score + 1, rs @ [''Info event: '' @ reason_name eid])
        else (score, rs))"

definition heuristic_check :: "int \<Rightarrow> row \<Rightarrow> score_state \<Rightarrow> exn + score_state" where
  \<comment> \<open>lines 118-131\<close>
  "heuristic_check eid r st =
     (case st of (score, rs) \<Rightarrow>
        if eid = 4688 then
          (let process_name = row_get r ''New_Process_Name'' (PStr [])
           in if is_str process_name then
                (case py_lower process_name of
                   Inl e \<Rightarrow> Inl e
                 | Inr low \<Rightarrow>
                     if list_ex (\<lambda>proc. str_contains proc low) suspicious_processes
                     then Inr (score + 2, rs @ [''Suspicious process: '' @ py_format process_name])
                     else Inr (score, rs))
              else Inr (score, rs))
        else if eid = 4624 then
          (let logon_type = row_get r ''Logon_Type'' PNone
           in if py_in_strs logon_type [''3'', ''10'']
              then Inr (score + 1, rs @ [''Remote logon (Type '' @ py_format logon_type @ '')''])
              else Inr (score, rs))
        else Inr (score, rs))"

record classification =
  timestamp :: pyval
  event_id :: int
  event_name :: string
  computer :: pyval
  user :: pyval
  suspicious_score :: int
  reasons :: string
  raw_data :: "row option"

definition emit :: "int \<Rightarrow> row \<Rightarrow> score_state \<Rightarrow> classification option" where
  \<comment> \<open>lines 134-144\<close>
  "emit eid r st =
     (case st of (score, rs) \<Rightarrow>
        if score > 0 then
          Some \<lparr> timestamp = row_get r ''_time'' PNone,
                 event_id = eid,
                 event_name = describe eid,
                 computer = row_get r ''ComputerName'' (PStr ''Unknown''),
                 user = row_get r ''user'' (row_get r ''Account_Name'' (PStr ''Unknown'')),
                 suspicious_score = score,
                 reasons = (if rs \<noteq> [] then py_join ''; '' rs else ''Generic suspicious''),
                 raw_data = (if score \<ge> 3 then Some r else None) \<rparr>
        else None)"

definition analyze_row :: "row \<Rightarrow> exn + classification option" where
  \<comment> \<open>one pass of the loop body, lines 89-144: \<open>Inl\<close> an exception that leaves the loop,
      \<open>Inr None\<close> nothing appended, \<open>Inr (Some c)\<close> the dict appended\<close>
  "analyze_row r =
     (case extract_event_id r of
        None \<Rightarrow> Inr None
      | Some eid \<Rightarrow>
          (case heuristic_check eid r (tier_check eid (0, [])) of
             Inl e \<Rightarrow> Inl e
           | Inr st \<Rightarrow> Inr (emit eid r st)))"

fun analyze_loop :: "row list \<Rightarrow> classification list \<Rightarrow> exn + classification list" where
  \<comment> \<open>the \<open>for\<close> loop of line 88 over the rows, with the list \<open>suspicious_events\<close>\<close>
  "analyze_loop [] acc = Inr acc"
| "analyze_loop (r # rs) acc =
     (case analyze_row r of
        Inl e \<Rightarrow> Inl e
      | Inr None \<Rightarrow> analyze_loop rs acc
      | Inr (Some c) \<Rightarrow> analyze_loop rs (acc @ [c]))"

definition analyze_suspicious_windows_events :: "row list \<Rightarrow> exn + classification list" where
  "analyze_suspicious_windows_events rows = analyze_loop rows []"

section \<open>Sample rows\<close>

text \<open>Concrete rows, among them the end-to-end examples of the specification.\<close>

definition row_failed_logon :: row where
  "row_failed_logon =
     [''EventCode'' \<mapsto> PInt 4625, ''ComputerName'' \<mapsto> PStr ''WIN-DC01'', ''user'' \<mapsto> PStr ''admin'']"

definition row_powershell :: row where
  "row_powershell =
     [''EventCode'' \<mapsto> PStr ''4688'', ''New_Process_Name'' \<mapsto> PStr ''PowerShell.exe -enc SQBFAFgA'']"

definition row_remote_logon :: row where
  "row_remote_logon = [''EventCode'' \<mapsto> PStr ''4624'', ''Logon_Type'' \<mapsto> PStr ''10'']"

definition row_logon_int_type :: row where
  "row_logon_int_type = [''EventCode'' \<mapsto> PInt 4624, ''Logon_Type'' \<mapsto> PInt 3]"

definition row_logon_no_type :: row where
  "row_logon_no_type = [''EventCode'' \<mapsto> PFloat (Finite 4624), ''user'' \<mapsto> PStr ''bob'']"

definition row_unknown :: row where
  "row_unknown = [''EventCode'' \<mapsto> PInt 9999]"

definition row_no_event_code :: row where
  "row_no_event_code = [''ComputerName'' \<mapsto> PStr ''WIN-DC01'']"

definition row_bad_event_code :: row where
  "row_bad_event_code = [''EventCode'' \<mapsto> PStr ''4625.0'', ''user'' \<mapsto> PStr ''admin'']"

definition row_separator_event_code :: row where
  \<comment> \<open>the digits of a high-risk id after the file separator, code point 28\<close>
  "row_separator_event_code = [''EventCode'' \<mapsto> PStr (CHR 0x1C # ''4625''), ''user'' \<mapsto> PStr ''admin'']"

definition row_long_event_code :: row where
  \<comment> \<open>the digits of a high-risk id after 4297 zeros: 4301 digits\<close>
  "row_long_event_code = [''EventCode'' \<mapsto> PStr (replicate 4297 CHR ''0'' @ ''4625'')]"

definition row_nan_event_code :: row where
  "row_nan_event_code = [''EventCode'' \<mapsto> PFloat NaN, ''New_Process_Name'' \<mapsto> PInt 7]"

definition row_odd_process :: row where
  "row_odd_process = [''EventCode'' \<mapsto> PInt 4688, ''New_Process_Name'' \<mapsto> PList [PStr ''cmd'']]"

section \<open>Auxiliary facts\<close>

lemmas tier_ids_defs = high_risk_ids_def medium_risk_ids_def low_risk_ids_def

text \<open>The test \<open>p in s\<close> of the model is the library's notion of a contiguous sublist.\<close>

lemma str_contains_iff_sublist: "str_contains p s \<longleftrightarrow> sublist p s"
  by (induction s) (auto simp: sublist_Cons_right)

lemma py_lower_of_str: "is_str v \<Longrightarrow> py_lower v = Inr (map lower_char (py_format v))"
  by (cases v) simp_all

text \<open>The \<open>isinstance\<close> guard of line 120 keeps \<open>lower\<close> away from a cell that is not a str.\<close>

lemma heuristic_check_returns: "\<exists>st'. heuristic_check eid r st = Inr st'"
  by (cases st) (auto simp: heuristic_check_def Let_def py_lower_of_str)

lemma tiered_in_catalog:
  "eid \<in> set high_risk_ids \<union> set medium_risk_ids \<union> set low_risk_ids \<Longrightarrow>
     \<exists>n. event_descriptions eid = Some n"
  unfolding tier_ids_defs event_descriptions_def by auto

lemma heuristic_check_untiered:
  "eid \<notin> set medium_risk_ids \<Longrightarrow> eid \<notin> set low_risk_ids \<Longrightarrow> heuristic_check eid r st = Inr st"
  by (cases st) (simp add: heuristic_check_def tier_ids_defs)

lemma tier_check_untiered:
  "eid \<notin> set high_risk_ids \<Longrightarrow> eid \<notin> set medium_risk_ids \<Longrightarrow> eid \<notin> set low_risk_ids \<Longrightarrow>
     tier_check eid st = st"
  by (cases st) (simp add: tier_check_def)

lemma analyze_row_Some_iff:
  "analyze_row r = Inr (Some c) \<longleftrightarrow>
     (\<exists>eid st. extract_event_id r = Some eid \<and>
        heuristic_check eid r (tier_check eid (0, [])) = Inr st \<and> emit eid r st = Some c)"
  by (auto simp: analyze_row_def split: option.splits sum.splits)

lemma emit_Some_iff:
  "emit eid r (score, rs) = Some c \<longleftrightarrow>
     0 < score \<and>
     c = \<lparr> timestamp = row_get r ''_time'' PNone, event_id = eid, event_name = describe eid,
           computer = row_get r ''ComputerName'' (PStr ''Unknown''),
           user = row_get r ''user'' (row_get r ''Account_Name'' (PStr ''Unknown'')),
           suspicious_score = score,
           reasons = (if rs \<noteq> [] then py_join ''; '' rs else ''Generic suspicious''),
           raw_data = (if score \<ge> 3 then Some r else None) \<rparr>"
  by (auto simp: emit_def)

text \<open>Only a tiered event id can reach a positive score: both heuristics sit on tiered ids.\<close>

lemma emitted_is_tiered:
  assumes "analyze_row r = Inr (Some c)"
  shows "event_id c \<in> set high_risk_ids \<union> set medium_risk_ids \<union> set low_risk_ids"
proof (rule ccontr)
  assume out: "\<not> ?thesis"
  from assms obtain eid st where
    h: "heuristic_check eid r (tier_check eid (0, [])) = Inr st" and e: "emit eid r st = Some c"
    by (auto simp: analyze_row_Some_iff)
  obtain score rs where st: "st = (score, rs)" by (cases st)
  from e st have id: "event_id c = eid" and pos: "0 < score"
    by (auto simp: emit_Some_iff)
  from out id have "tier_check eid (0, []) = (0, [])" "heuristic_check eid r (0, []) = Inr (0, [])"
    by (simp_all add: tier_check_untiered heuristic_check_untiered)
  with h st pos show False by simp
qed

lemma tier_check_fresh:
  "tier_check eid (0, []) =
     (if eid \<in> set high_risk_ids then (3, [''High-risk event: '' @ reason_name eid])
      else if eid \<in> set medium_risk_ids then (2, [''Medium-risk event: '' @ reason_name eid])
      else if eid \<in> set low_risk_ids then (1, [''Info event: '' @ reason_name eid])
      else (0, []))"
  by (simp add: tier_check_def)

lemma analyze_row_emit:
  "extract_event_id r = Some eid \<Longrightarrow> heuristic_check eid r (tier_check eid (0, [])) = Inr st \<Longrightarrow>
     analyze_row r = Inr (emit eid r st)"
  by (simp add: analyze_row_def)

lemma extract_event_id_None:
  "r ''EventCode'' = None \<or> (\<exists>v e. r ''EventCode'' = Some v \<and> py_int v = Inl e) \<Longrightarrow>
     extract_event_id r = None"
  by (auto simp: extract_event_id_def row_get_def)

text \<open>What \<open>int\<close> refuses: a separator that is no whitespace, and too many digits.\<close>

lemma int_of_str_too_long:
  "max_str_digits < length (filter is_digit (strip s)) \<Longrightarrow> int_of_str s = Inl ValueError"
  by (simp add: int_of_str_def Let_def split: option.splits)

lemma strip_no_space:
  "s \<noteq> [] \<Longrightarrow> \<not> is_space (hd s) \<Longrightarrow> \<not> is_space (last s) \<Longrightarrow> strip s = s"
proof -
  have drop: "dropWhile is_space xs = xs" if "xs \<noteq> []" "\<not> is_space (hd xs)" for xs
    using that by (cases xs) simp_all
  assume s: "s \<noteq> []" "\<not> is_space (hd s)" "\<not> is_space (last s)"
  then have "dropWhile is_space s = s" by (simp add: drop)
  moreover from s have "dropWhile is_space (rev s) = rev s" by (simp add: drop hd_rev)
  ultimately show ?thesis by (simp add: strip_def)
qed

lemma py_int_after_separator: "py_int (PStr (CHR 0x1C # ''4625'')) = Inl ValueError"
  by code_simp

lemma py_int_4301_digits: "py_int (PStr (replicate 4297 CHR ''0'' @ ''4625'')) = Inl ValueError"
proof -
  let ?s = "replicate 4297 CHR ''0'' @ ''4625''"
  have "strip ?s = ?s"
    by (rule strip_no_space) (simp_all add: is_space_def hd_append)
  moreover have "length (filter is_digit ?s) = 4301"
    by (simp add: is_digit_def)
  ultimately have "max_str_digits < length (filter is_digit (strip ?s))"
    by (simp add: max_str_digits_def)
  then show ?thesis by (simp add: int_of_str_too_long)
qed

section \<open>Base scoring by tier\<close>

text \<open>
  Claim C1. For a row whose event id lies in a tier list and on which no field heuristic
  fires, the score is the fixed value of the tier (High 3, Medium 2, Low 1) and there is
  exactly one reason, \<open>High-risk event: name\<close>, \<open>Medium-risk event: name\<close> or
  \<open>Info event: name\<close>, where \<open>name\<close> is the catalog name of the id. The tiers are tried
  in the order High, Medium, Low and the first list that holds the id decides.
\<close>

theorem base_tier_score:
  assumes eid: "extract_event_id r = Some eid"
    and quiet: "heuristic_check eid r (tier_check eid (0, [])) = Inr (tier_check eid (0, []))"
    and tier: "eid \<in> set high_risk_ids \<union> set medium_risk_ids \<union> set low_risk_ids"
  shows "\<exists>name c. event_descriptions eid = Some name \<and> analyze_row r = Inr (Some c) \<and>
           tier_check eid (0, []) = (suspicious_score c, [reasons c]) \<and>
           (suspicious_score c, reasons c) =
             (if eid \<in> set high_risk_ids then (3, ''High-risk event: '' @ name)
              else if eid \<in> set medium_risk_ids then (2, ''Medium-risk event: '' @ name)
              else (1, ''Info event: '' @ name))"
proof -
  from tier obtain name where name: "event_descriptions eid = Some name"
    using tiered_in_catalog by blast
  then have rn: "reason_name eid = name" by (simp add: reason_name_def)
  define score :: int where
    "score = (if eid \<in> set high_risk_ids then 3 else if eid \<in> set medium_risk_ids then 2 else 1)"
  define reason where
    "reason = (if eid \<in> set high_risk_ids then ''High-risk event: '' @ name
               else if eid \<in> set medium_risk_ids then ''Medium-risk event: '' @ name
               else ''Info event: '' @ name)"
  from tier rn have tc: "tier_check eid (0, []) = (score, [reason])"
    by (auto simp: tier_check_fresh score_def reason_def)
  have pos: "0 < score" by (simp add: score_def)
  from eid quiet tc have "analyze_row r = Inr (emit eid r (score, [reason]))"
    by (simp add: analyze_row_emit)
  with pos obtain c where c: "analyze_row r = Inr (Some c)"
    and sc: "suspicious_score c = score" and re: "reasons c = reason"
    by (simp add: emit_def)
  from sc re have "(suspicious_score c, reasons c) =
             (if eid \<in> set high_risk_ids then (3, ''High-risk event: '' @ name)
              else if eid \<in> set medium_risk_ids then (2, ''Medium-risk event: '' @ name)
              else (1, ''Info event: '' @ name))"
    by (simp add: score_def reason_def)
  with name c tc sc re show ?thesis by auto
qed

theorem base_tier_score_witness:
  "extract_event_id row_failed_logon = Some 4625 \<and>
   heuristic_check 4625 row_failed_logon (tier_check 4625 (0, [])) = Inr (tier_check 4625 (0, [])) \<and>
   4625 \<in> set high_risk_ids \<union> set medium_risk_ids \<union> set low_risk_ids \<and>
   (\<exists>c. analyze_row row_failed_logon = Inr (Some c) \<and> suspicious_score c = 3 \<and>
      reasons c = ''High-risk event: Failed Logon'')"
proof -
  have e: "extract_event_id row_failed_logon = Some 4625" by code_simp
  have q: "heuristic_check 4625 row_failed_logon (tier_check 4625 (0, [])) =
      Inr (tier_check 4625 (0, []))" by code_simp
  have t: "4625 \<in> set high_risk_ids \<union> set medium_risk_ids \<union> set low_risk_ids"
    by (simp add: tier_ids_defs)
  have h: "4625 \<in> set high_risk_ids" by (simp add: tier_ids_defs)
  have n: "event_descriptions 4625 = Some ''Failed Logon''"
    by (simp add: event_descriptions_def)
  from base_tier_score [OF e q t] n h
  have "\<exists>c. analyze_row row_failed_logon = Inr (Some c) \<and> suspicious_score c = 3 \<and>
      reasons c = ''High-risk event: Failed Logon''"
    by auto
  with e q t show ?thesis by blast
qed

text \<open>
  Claim C7. The three literal lists of event ids used for base scoring (lines 103, 108 and
  113) are pairwise disjoint: no event id is in more than one of the High, Medium and Low
  lists.
\<close>

theorem tiers_disjoint:
  "set high_risk_ids \<inter> set medium_risk_ids = {} \<and>
   set high_risk_ids \<inter> set low_risk_ids = {} \<and>
   set medium_risk_ids \<inter> set low_risk_ids = {}"
  by (simp add: tier_ids_defs)

section \<open>Field heuristics\<close>

text \<open>
  Claim C3. For a row with event id 4688 whose \<open>New_Process_Name\<close> is a str that, in lower
  case, contains one of \<open>powershell\<close>, \<open>cmd\<close>, \<open>wscript\<close>, \<open>cscript\<close>, \<open>mshta\<close>,
  \<open>rundll32\<close>, the heuristic adds 2 to the score and appends the reason
  \<open>Suspicious process: name\<close> after the medium base reason: the final score is 4 (so at
  least 4) with two reasons.
\<close>

theorem suspicious_process_adds_two:
  assumes eid: "extract_event_id r = Some 4688"
    and pn: "r ''New_Process_Name'' = Some (PStr pn)"
    and hit: "\<exists>proc \<in> set suspicious_processes. str_contains proc (map lower_char pn)"
  shows "tier_check 4688 (0, []) = (2, [''Medium-risk event: Process Creation'']) \<and>
         (\<forall>score rs. heuristic_check 4688 r (score, rs) =
            Inr (score + 2, rs @ [''Suspicious process: '' @ pn])) \<and>
         (\<exists>c. analyze_row r = Inr (Some c) \<and> suspicious_score c = 4 \<and>
            reasons c = ''Medium-risk event: Process Creation; Suspicious process: '' @ pn)"
proof -
  have tc: "tier_check 4688 (0, []) = (2, [''Medium-risk event: Process Creation''])"
    by (simp add: tier_check_def tier_ids_defs reason_name_def event_descriptions_def)
  from hit have ex: "list_ex (\<lambda>proc. str_contains proc (map lower_char pn)) suspicious_processes"
    by (simp add: list_ex_iff)
  from pn ex have hc: "heuristic_check 4688 r (score, rs) =
      Inr (score + 2, rs @ [''Suspicious process: '' @ pn])" for score rs
    by (simp add: heuristic_check_def row_get_def)
  from eid tc hc [of 2 "[''Medium-risk event: Process Creation'']"]
  have "analyze_row r = Inr (emit 4688 r (4, [''Medium-risk event: Process Creation'',
      ''Suspicious process: '' @ pn]))"
    by (simp add: analyze_row_emit)
  then have "\<exists>c. analyze_row r = Inr (Some c) \<and> suspicious_score c = 4 \<and>
            reasons c = ''Medium-risk event: Process Creation; Suspicious process: '' @ pn"
    by (simp add: emit_def)
  with tc hc show ?thesis by blast
qed

theorem suspicious_process_adds_two_witness:
  "extract_event_id row_powershell = Some 4688 \<and>
   row_powershell ''New_Process_Name'' = Some (PStr ''PowerShell.exe -enc SQBFAFgA'') \<and>
   str_contains ''powershell'' (map lower_char ''PowerShell.exe -enc SQBFAFgA'') \<and>
   (\<exists>c. analyze_row row_powershell = Inr (Some c) \<and> suspicious_score c = 4 \<and>
      reasons c =
        ''Medium-risk event: Process Creation; Suspicious process: PowerShell.exe -enc SQBFAFgA'')"
proof -
  have e: "extract_event_id row_powershell = Some 4688" by code_simp
  have p: "row_powershell ''New_Process_Name'' = Some (PStr ''PowerShell.exe -enc SQBFAFgA'')"
    by (simp add: row_powershell_def)
  have s: "str_contains ''powershell'' (map lower_char ''PowerShell.exe -enc SQBFAFgA'')"
    by code_simp
  then have h: "\<exists>proc \<in> set suspicious_processes.
      str_contains proc (map lower_char ''PowerShell.exe -enc SQBFAFgA'')"
    by (simp add: suspicious_processes_def)
  from suspicious_process_adds_two [OF e p h] e p s show ?thesis by simp
qed

text \<open>
  Claim C4. For a row with event id 4624 whose \<open>Logon_Type\<close> is the str \<open>3\<close> or \<open>10\<close>, the
  heuristic adds 1 to the score and appends the reason \<open>Remote logon (Type t)\<close> after the
  low base reason: the final score is 2.
\<close>

theorem remote_logon_adds_one:
  assumes eid: "extract_event_id r = Some 4624"
    and lt: "r ''Logon_Type'' = Some (PStr lt)"
    and remote: "lt = ''3'' \<or> lt = ''10''"
  shows "tier_check 4624 (0, []) = (1, [''Info event: Successful Logon'']) \<and>
         (\<forall>score rs. heuristic_check 4624 r (score, rs) =
            Inr (score + 1, rs @ [''Remote logon (Type '' @ lt @ '')''])) \<and>
         (\<exists>c. analyze_row r = Inr (Some c) \<and> suspicious_score c = 2 \<and>
            reasons c = ''Info event: Successful Logon; Remote logon (Type '' @ lt @ '')'')"
proof -
  have tc: "tier_check 4624 (0, []) = (1, [''Info event: Successful Logon''])"
    by (simp add: tier_check_def tier_ids_defs reason_name_def event_descriptions_def)
  from lt remote have hc: "heuristic_check 4624 r (score, rs) =
      Inr (score + 1, rs @ [''Remote logon (Type '' @ lt @ '')''])" for score rs
    by (auto simp: heuristic_check_def row_get_def py_in_strs_def)
  from eid tc hc [of 1 "[''Info event: Successful Logon'']"]
  have "analyze_row r = Inr (emit 4624 r (2, [''Info event: Successful Logon'',
      ''Remote logon (Type '' @ lt @ '')'']))"
    by (simp add: analyze_row_emit)
  then have "\<exists>c. analyze_row r = Inr (Some c) \<and> suspicious_score c = 2 \<and>
            reasons c = ''Info event: Successful Logon; Remote logon (Type '' @ lt @ '')''"
    by (simp add: emit_def)
  with tc hc show ?thesis by blast
qed

theorem remote_logon_adds_one_witness:
  "extract_event_id row_remote_logon = Some 4624 \<and>
   row_remote_logon ''Logon_Type'' = Some (PStr ''10'') \<and>
   (\<exists>c. analyze_row row_remote_logon = Inr (Some c) \<and> suspicious_score c = 2 \<and>
      reasons c = ''Info event: Successful Logon; Remote logon (Type 10)'')"
proof -
  have e: "extract_event_id row_remote_logon = Some 4624" by code_simp
  have l: "row_remote_logon ''Logon_Type'' = Some (PStr ''10'')"
    by (simp add: row_remote_logon_def)
  have "''10'' = ''3'' \<or> ''10'' = ''10''" by simp
  from remote_logon_adds_one [OF e l this] e l show ?thesis by simp
qed

text \<open>
  Claim C10. The remote-logon heuristic fires on the exact strs only. For a row with event
  id 4624 whose \<open>Logon_Type\<close> cell is anything other than the str \<open>3\<close> or the str \<open>10\<close> (the
  ints 3 and 10 and a missing cell included) the heuristic changes nothing, and the result
  has the base score 1 and no \<open>Remote logon\<close> reason.
\<close>

theorem remote_logon_exact_strings_only:
  assumes eid: "extract_event_id r = Some 4624"
    and no3: "row_get r ''Logon_Type'' PNone \<noteq> PStr ''3''"
    and no10: "row_get r ''Logon_Type'' PNone \<noteq> PStr ''10''"
  shows "(\<forall>st. heuristic_check 4624 r st = Inr st) \<and>
         (\<exists>c. analyze_row r = Inr (Some c) \<and> suspicious_score c = 1 \<and>
            reasons c = ''Info event: Successful Logon'')"
proof -
  have tc: "tier_check 4624 (0, []) = (1, [''Info event: Successful Logon''])"
    by (simp add: tier_check_def tier_ids_defs reason_name_def event_descriptions_def)
  from no3 no10 have "\<not> py_in_strs (row_get r ''Logon_Type'' PNone) [''3'', ''10'']"
    by (cases "row_get r ''Logon_Type'' PNone") (simp_all add: py_in_strs_def)
  then have hc: "heuristic_check 4624 r st = Inr st" for st
    by (cases st) (simp add: heuristic_check_def)
  from eid tc hc have "analyze_row r = Inr (emit 4624 r (1, [''Info event: Successful Logon'']))"
    by (simp add: analyze_row_emit)
  then have "\<exists>c. analyze_row r = Inr (Some c) \<and> suspicious_score c = 1 \<and>
            reasons c = ''Info event: Successful Logon''"
    by (simp add: emit_def)
  with hc show ?thesis by blast
qed

theorem remote_logon_exact_strings_only_witness:
  "extract_event_id row_logon_int_type = Some 4624 \<and>
   row_get row_logon_int_type ''Logon_Type'' PNone = PInt 3 \<and>
   (\<exists>c. analyze_row row_logon_int_type = Inr (Some c) \<and> suspicious_score c = 1 \<and>
      reasons c = ''Info event: Successful Logon'') \<and>
   extract_event_id row_logon_no_type = Some 4624 \<and>
   row_get row_logon_no_type ''Logon_Type'' PNone = PNone \<and>
   (\<exists>c. analyze_row row_logon_no_type = Inr (Some c) \<and> suspicious_score c = 1 \<and>
      reasons c = ''Info event: Successful Logon'')"
proof -
  have e: "extract_event_id row_logon_int_type = Some 4624" by code_simp
  have v: "row_get row_logon_int_type ''Logon_Type'' PNone = PInt 3"
    by (simp add: row_get_def row_logon_int_type_def)
  have e': "extract_event_id row_logon_no_type = Some 4624" by code_simp
  have v': "row_get row_logon_no_type ''Logon_Type'' PNone = PNone"
    by (simp add: row_get_def row_logon_no_type_def)
  from v have n: "row_get row_logon_int_type ''Logon_Type'' PNone \<noteq> PStr ''3''"
    "row_get row_logon_int_type ''Logon_Type'' PNone \<noteq> PStr ''10''" by simp_all
  from v' have n': "row_get row_logon_no_type ''Logon_Type'' PNone \<noteq> PStr ''3''"
    "row_get row_logon_no_type ''Logon_Type'' PNone \<noteq> PStr ''10''" by simp_all
  from remote_logon_exact_strings_only [OF e n] remote_logon_exact_strings_only [OF e' n'] e v e' v'
  show ?thesis by blast
qed

section \<open>Skipping and emitting\<close>

text \<open>
  Claim C5. A row whose \<open>EventCode\<close> cell is missing, or holds a value that \<open>int\<close> rejects,
  gives no result and no error: the loop goes on to the next row with the list of results
  unchanged. What \<open>int\<close> rejects is \<open>None\<close>, a list, a dict, a timestamp, a float that is
  \<open>NaN\<close> or infinite, and a str that is not an optional sign and decimal digits between
  whitespace or that has more than 4300 digits.
\<close>

theorem unparseable_event_id_skipped:
  assumes "r ''EventCode'' = None \<or> (\<exists>v e. r ''EventCode'' = Some v \<and> py_int v = Inl e)"
  shows "analyze_row r = Inr None \<and> analyze_loop (r # rs) acc = analyze_loop rs acc"
proof -
  from assms have "extract_event_id r = None" by (rule extract_event_id_None)
  then have "analyze_row r = Inr None" by (simp add: analyze_row_def)
  then show ?thesis by simp
qed

theorem unparseable_event_id_skipped_witness:
  "row_no_event_code ''EventCode'' = None \<and>
   analyze_row row_no_event_code = Inr None \<and>
   row_bad_event_code ''EventCode'' = Some (PStr ''4625.0'') \<and>
   py_int (PStr ''4625.0'') = Inl ValueError \<and>
   analyze_row row_bad_event_code = Inr None \<and>
   row_nan_event_code ''EventCode'' = Some (PFloat NaN) \<and>
   py_int (PFloat NaN) = Inl ValueError \<and>
   analyze_row row_nan_event_code = Inr None \<and>
   row_separator_event_code ''EventCode'' = Some (PStr (CHR 0x1C # ''4625'')) \<and>
   py_int (PStr (CHR 0x1C # ''4625'')) = Inl ValueError \<and>
   analyze_row row_separator_event_code = Inr None \<and>
   row_long_event_code ''EventCode'' = Some (PStr (replicate 4297 CHR ''0'' @ ''4625'')) \<and>
   py_int (PStr (replicate 4297 CHR ''0'' @ ''4625'')) = Inl ValueError \<and>
   analyze_row row_long_event_code = Inr None"
proof -
  have a: "row_no_event_code ''EventCode'' = None" by (simp add: row_no_event_code_def)
  have b: "row_bad_event_code ''EventCode'' = Some (PStr ''4625.0'')"
    by (simp add: row_bad_event_code_def)
  have b': "py_int (PStr ''4625.0'') = Inl ValueError" by code_simp
  have c: "row_nan_event_code ''EventCode'' = Some (PFloat NaN)"
    by (simp add: row_nan_event_code_def)
  have c': "py_int (PFloat NaN) = Inl ValueError" by simp
  have d: "row_separator_event_code ''EventCode'' = Some (PStr (CHR 0x1C # ''4625''))"
    by (simp add: row_separator_event_code_def)
  note d' = py_int_after_separator
  have e: "row_long_event_code ''EventCode'' = Some (PStr (replicate 4297 CHR ''0'' @ ''4625''))"
    by (simp add: row_long_event_code_def)
  note e' = py_int_4301_digits
  from a have a'': "analyze_row row_no_event_code = Inr None"
    using unparseable_event_id_skipped [of row_no_event_code] by blast
  from b b' have b'': "analyze_row row_bad_event_code = Inr None"
    using unparseable_event_id_skipped [of row_bad_event_code] by blast
  from c c' have c'': "analyze_row row_nan_event_code = Inr None"
    using unparseable_event_id_skipped [of row_nan_event_code] by blast
  from d d' have d'': "analyze_row row_separator_event_code = Inr None"
    using unparseable_event_id_skipped [of row_separator_event_code] by blast
  from e e' have e'': "analyze_row row_long_event_code = Inr None"
    using unparseable_event_id_skipped [of row_long_event_code] by blast
  show ?thesis
    by (intro conjI) (fact a a'' b b' b'' c c' c'' d d' d'' e e' e'')+
qed

text \<open>
  Claim C6. A row gives a result exactly when its event id is read and the score computed
  for it is greater than 0. In particular a row whose event id is outside the three tier
  lists (no heuristic can fire on it), such as \<open>EventCode\<close> 9999, gives no result.
\<close>

theorem emitted_iff_positive_score:
  "((\<exists>c. analyze_row r = Inr (Some c)) \<longleftrightarrow>
      (\<exists>eid score rs. extract_event_id r = Some eid \<and>
         heuristic_check eid r (tier_check eid (0, [])) = Inr (score, rs) \<and> 0 < score)) \<and>
   (\<forall>eid. extract_event_id r = Some eid \<and>
      eid \<notin> set high_risk_ids \<union> set medium_risk_ids \<union> set low_risk_ids \<longrightarrow>
      analyze_row r = Inr None)"
proof (intro conjI allI impI)
  show "(\<exists>c. analyze_row r = Inr (Some c)) \<longleftrightarrow>
      (\<exists>eid score rs. extract_event_id r = Some eid \<and>
         heuristic_check eid r (tier_check eid (0, [])) = Inr (score, rs) \<and> 0 < score)"
  proof
    assume "\<exists>c. analyze_row r = Inr (Some c)"
    then obtain c eid st where eid: "extract_event_id r = Some eid"
      and h: "heuristic_check eid r (tier_check eid (0, [])) = Inr st"
      and e: "emit eid r st = Some c"
      by (auto simp: analyze_row_Some_iff)
    obtain score rs where st: "st = (score, rs)" by (cases st)
    with e have "0 < score" by (simp add: emit_Some_iff)
    with eid h st show "\<exists>eid score rs. extract_event_id r = Some eid \<and>
         heuristic_check eid r (tier_check eid (0, [])) = Inr (score, rs) \<and> 0 < score"
      by blast
  next
    assume "\<exists>eid score rs. extract_event_id r = Some eid \<and>
         heuristic_check eid r (tier_check eid (0, [])) = Inr (score, rs) \<and> 0 < score"
    then obtain eid score rs where eid: "extract_event_id r = Some eid"
      and h: "heuristic_check eid r (tier_check eid (0, [])) = Inr (score, rs)"
      and pos: "0 < score"
      by blast
    from eid h have "analyze_row r = Inr (emit eid r (score, rs))"
      by (rule analyze_row_emit)
    with pos show "\<exists>c. analyze_row r = Inr (Some c)"
      by (simp add: emit_def)
  qed
next
  fix eid
  assume a: "extract_event_id r = Some eid \<and>
      eid \<notin> set high_risk_ids \<union> set medium_risk_ids \<union> set low_risk_ids"
  then have "heuristic_check eid r (tier_check eid (0, [])) = Inr (0, [])"
    by (simp add: tier_check_untiered heuristic_check_untiered)
  with a show "analyze_row r = Inr None"
    by (simp add: analyze_row_def emit_def)
qed

theorem emitted_iff_positive_score_witness:
  "extract_event_id row_unknown = Some 9999 \<and>
   9999 \<notin> set high_risk_ids \<union> set medium_risk_ids \<union> set low_risk_ids \<and>
   analyze_row row_unknown = Inr None \<and>
   heuristic_check 4625 row_failed_logon (tier_check 4625 (0, [])) =
     Inr (3, [''High-risk event: Failed Logon'']) \<and>
   (\<exists>c. analyze_row row_failed_logon = Inr (Some c))"
proof -
  have e: "extract_event_id row_unknown = Some 9999" by code_simp
  have t: "9999 \<notin> set high_risk_ids \<union> set medium_risk_ids \<union> set low_risk_ids"
    by (simp add: tier_ids_defs)
  have f: "extract_event_id row_failed_logon = Some 4625" by code_simp
  have g: "heuristic_check 4625 row_failed_logon (tier_check 4625 (0, [])) =
     Inr (3, [''High-risk event: Failed Logon''])" by code_simp
  from emitted_iff_positive_score [of row_unknown] e t
  have u: "analyze_row row_unknown = Inr None" by blast
  have "\<exists>eid score rs. extract_event_id row_failed_logon = Some eid \<and>
      heuristic_check eid row_failed_logon (tier_check eid (0, [])) = Inr (score, rs) \<and> 0 < score"
    using f g by (intro exI [of _ 4625] exI [of _ 3] exI [of _ "[''High-risk event: Failed Logon'']"]) simp
  with emitted_iff_positive_score [of row_failed_logon]
  have "\<exists>c. analyze_row row_failed_logon = Inr (Some c)" by blast
  with e t u g show ?thesis by blast
qed

text \<open>
  Claim C2. In every emitted result \<open>raw_data\<close> holds the whole input row exactly when the
  final score is at least 3; for a result with score 1 or 2 it is \<open>None\<close>.
\<close>

theorem raw_data_iff_high_score:
  assumes "analyze_row r = Inr (Some c)"
  shows "(raw_data c = Some r \<longleftrightarrow> 3 \<le> suspicious_score c) \<and>
         (raw_data c = None \<longleftrightarrow> suspicious_score c < 3) \<and>
         (suspicious_score c = 1 \<or> suspicious_score c = 2 \<longrightarrow> raw_data c = None)"
proof -
  from assms obtain eid st where e: "emit eid r st = Some c"
    by (auto simp: analyze_row_Some_iff)
  obtain score rs where "st = (score, rs)" by (cases st)
  with e show ?thesis by (auto simp: emit_Some_iff)
qed

theorem raw_data_iff_high_score_witness:
  "(\<exists>c. analyze_row row_failed_logon = Inr (Some c) \<and> suspicious_score c = 3 \<and>
      raw_data c = Some row_failed_logon) \<and>
   (\<exists>c. analyze_row row_remote_logon = Inr (Some c) \<and> suspicious_score c = 2 \<and>
      raw_data c = None)"
proof -
  have "extract_event_id row_failed_logon = Some 4625" by code_simp
  moreover have "heuristic_check 4625 row_failed_logon (tier_check 4625 (0, [])) =
      Inr (3, [''High-risk event: Failed Logon''])" by code_simp
  ultimately have "analyze_row row_failed_logon =
      Inr (emit 4625 row_failed_logon (3, [''High-risk event: Failed Logon'']))"
    by (rule analyze_row_emit)
  then obtain c where c: "analyze_row row_failed_logon = Inr (Some c)" "suspicious_score c = 3"
    by (simp add: emit_def)
  have "extract_event_id row_remote_logon = Some 4624" by code_simp
  moreover have "heuristic_check 4624 row_remote_logon (tier_check 4624 (0, [])) =
      Inr (2, [''Info event: Successful Logon'', ''Remote logon (Type 10)''])" by code_simp
  ultimately have "analyze_row row_remote_logon =
      Inr (emit 4624 row_remote_logon (2, [''Info event: Successful Logon'', ''Remote logon (Type 10)'']))"
    by (rule analyze_row_emit)
  then obtain d where d: "analyze_row row_remote_logon = Inr (Some d)" "suspicious_score d = 2"
    by (simp add: emit_def)
  from raw_data_iff_high_score [OF c(1)] c(2) have "raw_data c = Some row_failed_logon" by simp
  moreover from raw_data_iff_high_score [OF d(1)] d(2) have "raw_data d = None" by simp
  ultimately show ?thesis using c d by blast
qed

text \<open>
  Claim C9. Naming an event id cannot fail. In every emitted result \<open>event_name\<close> is the
  name the catalog gives the id, or \<open>Event id\<close> for an id the catalog lacks; every id of the
  three tier lists is in the catalog, so that the name of an emitted, hence tiered, event
  is always the literal catalog name.
\<close>

theorem event_name_from_catalog:
  assumes "analyze_row r = Inr (Some c)"
  shows "event_name c = (case event_descriptions (event_id c) of
                           Some n \<Rightarrow> n | None \<Rightarrow> ''Event '' @ str_int (event_id c)) \<and>
         (\<forall>i \<in> set high_risk_ids \<union> set medium_risk_ids \<union> set low_risk_ids.
            i \<in> dom event_descriptions) \<and>
         event_descriptions (event_id c) = Some (event_name c)"
proof -
  from assms obtain eid st where e: "emit eid r st = Some c"
    by (auto simp: analyze_row_Some_iff)
  obtain score rs where "st = (score, rs)" by (cases st)
  with e have nm: "event_name c = describe (event_id c)"
    by (auto simp: emit_Some_iff)
  have cat: "\<forall>i \<in> set high_risk_ids \<union> set medium_risk_ids \<union> set low_risk_ids.
            i \<in> dom event_descriptions"
    using tiered_in_catalog by blast
  from assms have "event_id c \<in> set high_risk_ids \<union> set medium_risk_ids \<union> set low_risk_ids"
    by (rule emitted_is_tiered)
  then obtain n where "event_descriptions (event_id c) = Some n"
    using tiered_in_catalog by blast
  with nm have "event_descriptions (event_id c) = Some (event_name c)"
    by (simp add: describe_def)
  with nm cat show ?thesis by (simp add: describe_def)
qed

theorem event_name_from_catalog_witness:
  "\<exists>c. analyze_row row_failed_logon = Inr (Some c) \<and> event_id c = 4625 \<and>
      event_name c = ''Failed Logon''"
proof -
  have "extract_event_id row_failed_logon = Some 4625" by code_simp
  moreover have "heuristic_check 4625 row_failed_logon (tier_check 4625 (0, [])) =
      Inr (3, [''High-risk event: Failed Logon''])" by code_simp
  ultimately have "analyze_row row_failed_logon =
      Inr (emit 4625 row_failed_logon (3, [''High-risk event: Failed Logon'']))"
    by (rule analyze_row_emit)
  then obtain c where c: "analyze_row row_failed_logon = Inr (Some c)" and i: "event_id c = 4625"
    by (simp add: emit_def)
  have n: "event_descriptions 4625 = Some ''Failed Logon''"
    by (simp add: event_descriptions_def)
  from event_name_from_catalog [OF c]
  have "event_descriptions (event_id c) = Some (event_name c)" by (elim conjE)
  with i n have "event_name c = ''Failed Logon''" by simp
  with c i show ?thesis by blast
qed

section \<open>Totality\<close>

text \<open>
  Claim C8. The classification of a record is total: for a row of any shape (fields
  missing, an event id that is not a number, a process name or logon type that is not a
  str) the loop body ends with a skip or with an emitted result and raises nothing, and so
  the loop over any list of rows returns its list of results.
\<close>

theorem analyze_never_raises:
  "(\<exists>out. analyze_row r = Inr out) \<and> (\<exists>res. analyze_suspicious_windows_events rows = Inr res)"
proof
  show row: "\<exists>out. analyze_row r = Inr out" for r
  proof (cases "extract_event_id r")
    case None
    then show ?thesis by (simp add: analyze_row_def)
  next
    case (Some eid)
    obtain st where "heuristic_check eid r (tier_check eid (0, [])) = Inr st"
      using heuristic_check_returns by blast
    with Some show ?thesis by (simp add: analyze_row_def)
  qed
  have "\<exists>res. analyze_loop rows acc = Inr res" for acc
  proof (induction rows arbitrary: acc)
    case Nil
    show ?case by simp
  next
    case (Cons r rows)
    from row [of r] obtain out where "analyze_row r = Inr out" ..
    with Cons.IH show ?case by (cases out) simp_all
  qed
  then show "\<exists>res. analyze_suspicious_windows_events rows = Inr res"
    by (simp add: analyze_suspicious_windows_events_def)
qed

theorem analyze_never_raises_witness:
  "(\<exists>out. analyze_row row_odd_process = Inr out) \<and>
   (\<exists>res. analyze_suspicious_windows_events
      [row_odd_process, row_nan_event_code, row_logon_int_type, row_no_event_code] = Inr res)"
  using analyze_never_raises
    [of row_odd_process "[row_odd_process, row_nan_event_code, row_logon_int_type, row_no_event_code]"]
  by simp

end
